theory Spec2Isabelle
  imports Complex_Main
begin

section \<open>JavaScript values used by the actor-creation layer\<close>

text \<open>
  A TypeScript \<open>number\<close> is either NaN, one of the two infinities, or a finite value.
  Finite values are taken as reals: the code below only compares numbers, takes the larger
  of two, and divides by the literals 2 and 1000, so the rounding of doubles is not part
  of the model, and the two zeros of IEEE arithmetic are the single value \<open>Fin 0\<close>.
\<close>

datatype number = NaN | NegInf | Fin real | PosInf

text \<open>The relational operator \<open>a < b\<close> on numbers: every comparison with NaN is false.\<close>

fun js_lt :: "number \<Rightarrow> number \<Rightarrow> bool" where
  "js_lt NaN b = False"
| "js_lt a NaN = False"
| "js_lt PosInf b = False"
| "js_lt a NegInf = False"
| "js_lt NegInf b = True"
| "js_lt a PosInf = True"
| "js_lt (Fin a) (Fin b) = (a < b)"

text \<open>\<open>a > b\<close> is \<open>b < a\<close>.\<close>

definition js_gt :: "number \<Rightarrow> number \<Rightarrow> bool" where
  "js_gt a b = js_lt b a"

text \<open>\<open>Math.max(a, b)\<close>: NaN as soon as one argument is NaN.\<close>

fun js_max :: "number \<Rightarrow> number \<Rightarrow> number" where
  "js_max NaN b = NaN"
| "js_max a NaN = NaN"
| "js_max PosInf b = PosInf"
| "js_max a PosInf = PosInf"
| "js_max NegInf b = b"
| "js_max a NegInf = a"
| "js_max (Fin a) (Fin b) = Fin (max a b)"

text \<open>
  \<open>a / d\<close> for a positive finite literal \<open>d\<close> (the code divides by 2 and by 1000 only):
  NaN and the infinities are kept, a finite value is divided.
\<close>

fun js_div_lit :: "number \<Rightarrow> real \<Rightarrow> number" where
  "js_div_lit NaN d = NaN"
| "js_div_lit NegInf d = NegInf"
| "js_div_lit PosInf d = PosInf"
| "js_div_lit (Fin a) d = Fin (a / d)"

text \<open>
  An optional field of type \<open>string\<close>, \<open>boolean\<close> or \<open>number\<close> is an \<open>option\<close>:
  \<open>None\<close> is the absent field (reading it gives \<open>undefined\<close>). The logical not \<open>!v\<close>
  is true on \<open>undefined\<close>, on the empty string, on \<open>false\<close>, and on the numbers 0 and NaN.
\<close>

fun not_string :: "string option \<Rightarrow> bool" where
  "not_string None = True"
| "not_string (Some s) = (s = [])"

fun not_boolean :: "bool option \<Rightarrow> bool" where
  "not_boolean None = True"
| "not_boolean (Some b) = (\<not> b)"

fun not_number :: "number option \<Rightarrow> bool" where
  "not_number None = True"
| "not_number (Some NaN) = True"
| "not_number (Some (Fin r)) = (r = 0)"
| "not_number (Some n) = False"

text \<open>
  The field \<open>verts\<close> is declared \<open>verts?: number[] = null\<close>, so it has three states:
  absent, \<open>null\<close>, or an array. Every array is truthy, the empty one too.
\<close>

datatype verts_field = Undefined | Null | Verts "number list"

fun not_verts :: "verts_field \<Rightarrow> bool" where
  "not_verts Undefined = True"
| "not_verts Null = True"
| "not_verts (Verts vs) = False"

text \<open>
  \<open>c.z < n\<close> and \<open>c.z > n\<close> when \<open>c.z\<close> may be absent: \<open>undefined\<close> converts to NaN,
  so both comparisons are false.
\<close>

fun opt_lt :: "number option \<Rightarrow> number \<Rightarrow> bool" where
  "opt_lt None n = False"
| "opt_lt (Some v) n = js_lt v n"

fun opt_gt :: "number option \<Rightarrow> number \<Rightarrow> bool" where
  "opt_gt None n = False"
| "opt_gt (Some v) n = js_gt v n"

section \<open>ActorConfig and its validation\<close>

text \<open>
  The class \<open>ActorConfig\<close>: the mandatory fields \<open>x\<close>, \<open>y\<close>, \<open>width\<close>, \<open>height\<close> and the
  optional fields \<open>img\<close>, \<open>box\<close>, \<open>verts\<close>, \<open>z\<close>. The fields carry the prefix \<open>ac_\<close>
  because a record field is a constant of the theory.
\<close>

record ActorConfig =
  ac_x :: number
  ac_y :: number
  ac_width :: number
  ac_height :: number
  ac_img :: "string option"
  ac_box :: "bool option"
  ac_verts :: verts_field
  ac_z :: "number option"

text \<open>
  \<open>checkActorConfig\<close> updates the descriptor in place; the model returns the updated
  descriptor. The six statements run in the order of the source, each on the result of
  the one before.
\<close>

definition checkActorConfig :: "ActorConfig \<Rightarrow> ActorConfig" where
  "checkActorConfig c0 =
    (let c1 = (if not_string (ac_img c0) then c0\<lparr>ac_img := Some ''''\<rparr> else c0);
         c2 = (if not_boolean (ac_box c1) then c1\<lparr>ac_box := Some False\<rparr> else c1);
         c3 = (if not_verts (ac_verts c2) then c2\<lparr>ac_verts := Null\<rparr> else c2);
         c4 = (if not_number (ac_z c3) then c3\<lparr>ac_z := Some (Fin 0)\<rparr> else c3);
         c5 = (if opt_lt (ac_z c4) (Fin (- 2)) then c4\<lparr>ac_z := Some (Fin (- 2))\<rparr> else c4);
         c6 = (if opt_gt (ac_z c5) (Fin 2) then c5\<lparr>ac_z := Some (Fin 2)\<rparr> else c5)
     in c6)"

section \<open>The engine, as seen from WorldApi\<close>

text \<open>
  Modelled from the spec: the engine classes \<open>JetLagStage\<close>, \<open>Obstacle\<close>, \<open>Hero\<close>,
  \<open>Enemy\<close>, \<open>Destination\<close>, \<open>Goodie\<close> and \<open>ParallaxLayer\<close> are imported by WorldApi
  from other modules; the spec treats them as an opaque collaborator that this code
  configures and calls into. The model therefore gives the engine no
  behaviour of its own: the stage is the list of the calls it has received, oldest first,
  each with its arguments, and a counter of the objects constructed so far, which names
  them.
\<close>

datatype BodyType = STATIC | DYNAMIC

datatype ActorClass = Obstacle | Hero | Enemy | Destination | Goodie

type_synonym ref = nat

text \<open>
  The arguments of \<open>new ParallaxLayer(x, y, width, height, speed, b1, b2, img, config,
  device)\<close>. The two flags are named after the methods that set them: the first is true
  in the horizontal methods, the second in the auto methods. The last two arguments are
  the stage's own \<open>config\<close> and \<open>device\<close>, the same in every call, and are left out.
\<close>

record ParallaxLayer =
  pl_x :: number
  pl_y :: number
  pl_width :: number
  pl_height :: number
  pl_speed :: number
  pl_horizontal :: bool
  pl_auto :: bool
  pl_img :: "string option"

datatype call =
    Construct ref ActorClass number number "string option" "number option"
      \<comment> \<open>\<open>new K(stage, width, height, img, z)\<close>\<close>
  | SetPolygonPhysics ref BodyType number number "number list"
  | SetBoxPhysics ref BodyType number number
  | SetCirclePhysics ref BodyType number number number
  | SetCollisionsEnabled ref bool
  | OnHeroCreated
  | OnEnemyCreated
  | AddActor ref "number option"
      \<comment> \<open>\<open>stage.getWorld().addActor(actor, z)\<close>\<close>
  | BackgroundAddLayer ParallaxLayer
  | ForegroundAddLayer ParallaxLayer

record JetLagStage =
  calls :: "call list"
  allocated :: nat

definition engine_call :: "call \<Rightarrow> JetLagStage \<Rightarrow> JetLagStage" where
  "engine_call c stage = stage\<lparr>calls := calls stage @ [c]\<rparr>"

definition new_actor ::
  "ActorClass \<Rightarrow> number \<Rightarrow> number \<Rightarrow> string option \<Rightarrow> number option \<Rightarrow> JetLagStage
    \<Rightarrow> ref \<times> JetLagStage" where
  "new_actor k w h img z stage =
    (let r = allocated stage
     in (r, engine_call (Construct r k w h img z) (stage\<lparr>allocated := Suc r\<rparr>)))"

section \<open>WorldApi: the actor-creation methods\<close>

text \<open>
  Each method validates the descriptor and goes on with the validated one. The test
  \<open>cfg.verts != null\<close> holds exactly when the field is an array (the loose comparison
  takes \<open>undefined\<close> for \<open>null\<close>), and \<open>cfg.box\<close> is true when \<open>!cfg.box\<close> is not. The
  result is the handle of the new actor and the stage after the calls. The local \<open>o\<close> of
  \<open>makeObstacle\<close> is \<open>ob\<close> here.
\<close>

definition makeObstacle :: "JetLagStage \<Rightarrow> ActorConfig \<Rightarrow> ref \<times> JetLagStage" where
  "makeObstacle stage0 cfg0 =
    (let cfg = checkActorConfig cfg0;
         (ob, stage1) =
           (case ac_verts cfg of
              Verts vs \<Rightarrow>
                let (ob, s) = new_actor Obstacle (ac_width cfg) (ac_height cfg) (ac_img cfg) (ac_z cfg) stage0
                in (ob, engine_call (SetPolygonPhysics ob STATIC (ac_x cfg) (ac_y cfg) vs) s)
            | _ \<Rightarrow>
                if \<not> not_boolean (ac_box cfg) then
                  let (ob, s) = new_actor Obstacle (ac_width cfg) (ac_height cfg) (ac_img cfg) (ac_z cfg) stage0
                  in (ob, engine_call (SetBoxPhysics ob STATIC (ac_x cfg) (ac_y cfg)) s)
                else
                  let radius = js_max (ac_width cfg) (ac_height cfg);
                      (ob, s) = new_actor Obstacle radius radius (ac_img cfg) (ac_z cfg) stage0
                  in (ob, engine_call (SetCirclePhysics ob STATIC (ac_x cfg) (ac_y cfg) (js_div_lit radius 2)) s));
         stage2 = engine_call (AddActor ob (ac_z cfg)) stage1
     in (ob, stage2))"

definition makeHero :: "JetLagStage \<Rightarrow> ActorConfig \<Rightarrow> ref \<times> JetLagStage" where
  "makeHero stage0 cfg0 =
    (let cfg = checkActorConfig cfg0;
         (h, stage1) =
           (case ac_verts cfg of
              Verts vs \<Rightarrow>
                let (h, s) = new_actor Hero (ac_width cfg) (ac_height cfg) (ac_img cfg) (ac_z cfg) stage0
                in (h, engine_call (SetPolygonPhysics h DYNAMIC (ac_x cfg) (ac_y cfg) vs) s)
            | _ \<Rightarrow>
                if \<not> not_boolean (ac_box cfg) then
                  let (h, s) = new_actor Hero (ac_width cfg) (ac_height cfg) (ac_img cfg) (ac_z cfg) stage0
                  in (h, engine_call (SetBoxPhysics h DYNAMIC (ac_x cfg) (ac_y cfg)) s)
                else
                  let radius = js_max (ac_width cfg) (ac_height cfg);
                      (h, s) = new_actor Hero radius radius (ac_img cfg) (ac_z cfg) stage0
                  in (h, engine_call (SetCirclePhysics h DYNAMIC (ac_x cfg) (ac_y cfg) (js_div_lit radius 2)) s));
         stage2 = engine_call OnHeroCreated stage1;
         stage3 = engine_call (AddActor h (Some (Fin 0))) stage2
     in (h, stage3))"

definition makeEnemy :: "JetLagStage \<Rightarrow> ActorConfig \<Rightarrow> ref \<times> JetLagStage" where
  "makeEnemy stage0 cfg0 =
    (let cfg = checkActorConfig cfg0;
         (e, stage1) =
           (case ac_verts cfg of
              Verts vs \<Rightarrow>
                let (e, s) = new_actor Enemy (ac_width cfg) (ac_height cfg) (ac_img cfg) (ac_z cfg) stage0
                in (e, engine_call (SetPolygonPhysics e STATIC (ac_x cfg) (ac_y cfg) vs) s)
            | _ \<Rightarrow>
                if \<not> not_boolean (ac_box cfg) then
                  let (e, s) = new_actor Enemy (ac_width cfg) (ac_height cfg) (ac_img cfg) (ac_z cfg) stage0
                  in (e, engine_call (SetBoxPhysics e STATIC (ac_x cfg) (ac_y cfg)) s)
                else
                  let radius = js_max (ac_width cfg) (ac_height cfg);
                      (e, s) = new_actor Enemy radius radius (ac_img cfg) (ac_z cfg) stage0
                  in (e, engine_call (SetCirclePhysics e STATIC (ac_x cfg) (ac_y cfg) (js_div_lit radius 2)) s));
         stage2 = engine_call OnEnemyCreated stage1;
         stage3 = engine_call (AddActor e (Some (Fin 0))) stage2
     in (e, stage3))"

definition makeDestination :: "JetLagStage \<Rightarrow> ActorConfig \<Rightarrow> ref \<times> JetLagStage" where
  "makeDestination stage0 cfg0 =
    (let cfg = checkActorConfig cfg0;
         (d, stage1) =
           (case ac_verts cfg of
              Verts vs \<Rightarrow>
                let (d, s) = new_actor Destination (ac_width cfg) (ac_height cfg) (ac_img cfg) (ac_z cfg) stage0
                in (d, engine_call (SetPolygonPhysics d STATIC (ac_x cfg) (ac_y cfg) vs) s)
            | _ \<Rightarrow>
                if \<not> not_boolean (ac_box cfg) then
                  let (d, s) = new_actor Destination (ac_width cfg) (ac_height cfg) (ac_img cfg) (ac_z cfg) stage0
                  in (d, engine_call (SetBoxPhysics d STATIC (ac_x cfg) (ac_y cfg)) s)
                else
                  let radius = js_max (ac_width cfg) (ac_height cfg);
                      (d, s) = new_actor Destination radius radius (ac_img cfg) (ac_z cfg) stage0
                  in (d, engine_call (SetCirclePhysics d STATIC (ac_x cfg) (ac_y cfg) (js_div_lit radius 2)) s));
         stage2 = engine_call (SetCollisionsEnabled d False) stage1;
         stage3 = engine_call (AddActor d (Some (Fin 0))) stage2
     in (d, stage3))"

definition makeGoodie :: "JetLagStage \<Rightarrow> ActorConfig \<Rightarrow> ref \<times> JetLagStage" where
  "makeGoodie stage0 cfg0 =
    (let cfg = checkActorConfig cfg0;
         (g, stage1) =
           (case ac_verts cfg of
              Verts vs \<Rightarrow>
                let (g, s) = new_actor Goodie (ac_width cfg) (ac_height cfg) (ac_img cfg) (ac_z cfg) stage0
                in (g, engine_call (SetPolygonPhysics g STATIC (ac_x cfg) (ac_y cfg) vs) s)
            | _ \<Rightarrow>
                if \<not> not_boolean (ac_box cfg) then
                  let (g, s) = new_actor Goodie (ac_width cfg) (ac_height cfg) (ac_img cfg) (ac_z cfg) stage0
                  in (g, engine_call (SetBoxPhysics g STATIC (ac_x cfg) (ac_y cfg)) s)
                else
                  let radius = js_max (ac_width cfg) (ac_height cfg);
                      (g, s) = new_actor Goodie radius radius (ac_img cfg) (ac_z cfg) stage0
                  in (g, engine_call (SetCirclePhysics g STATIC (ac_x cfg) (ac_y cfg) (js_div_lit radius 2)) s));
         stage2 = engine_call (SetCollisionsEnabled g False) stage1;
         stage3 = engine_call (AddActor g (Some (Fin 0))) stage2
     in (g, stage3))"

section \<open>WorldApi: the parallax layers\<close>

text \<open>
  Modelled from the spec: \<open>ImageConfig\<close> and \<open>checkImageConfig\<close> are imported from
  another module; the spec describes the descriptor as position, dimensions, image
  reference and z-order. The record has the fields that WorldApi reads (\<open>x\<close>, \<open>y\<close>, \<open>width\<close>, \<open>height\<close>, \<open>img\<close>, \<open>z\<close>), and the
  validation is a parameter of the layer methods: whatever it does to the descriptor,
  it does not see the speed.
\<close>

record ImageConfig =
  ic_x :: number
  ic_y :: number
  ic_width :: number
  ic_height :: number
  ic_img :: "string option"
  ic_z :: "number option"

definition addHorizontalBackgroundLayer ::
  "(ImageConfig \<Rightarrow> ImageConfig) \<Rightarrow> JetLagStage \<Rightarrow> ImageConfig \<Rightarrow> number \<Rightarrow> JetLagStage" where
  "addHorizontalBackgroundLayer checkImageConfig stage cfg0 xSpeed =
    (let cfg = checkImageConfig cfg0;
         pl = \<lparr>pl_x = ic_x cfg, pl_y = ic_y cfg, pl_width = ic_width cfg, pl_height = ic_height cfg,
               pl_speed = xSpeed, pl_horizontal = True, pl_auto = False, pl_img = ic_img cfg\<rparr>
     in engine_call (BackgroundAddLayer pl) stage)"

definition addVerticalBackgroundLayer ::
  "(ImageConfig \<Rightarrow> ImageConfig) \<Rightarrow> JetLagStage \<Rightarrow> ImageConfig \<Rightarrow> number \<Rightarrow> JetLagStage" where
  "addVerticalBackgroundLayer checkImageConfig stage cfg0 ySpeed =
    (let cfg = checkImageConfig cfg0;
         pl = \<lparr>pl_x = ic_x cfg, pl_y = ic_y cfg, pl_width = ic_width cfg, pl_height = ic_height cfg,
               pl_speed = ySpeed, pl_horizontal = False, pl_auto = False, pl_img = ic_img cfg\<rparr>
     in engine_call (BackgroundAddLayer pl) stage)"

definition addHorizontalForegroundLayer ::
  "(ImageConfig \<Rightarrow> ImageConfig) \<Rightarrow> JetLagStage \<Rightarrow> ImageConfig \<Rightarrow> number \<Rightarrow> JetLagStage" where
  "addHorizontalForegroundLayer checkImageConfig stage cfg0 xSpeed =
    (let cfg = checkImageConfig cfg0;
         pl = \<lparr>pl_x = ic_x cfg, pl_y = ic_y cfg, pl_width = ic_width cfg, pl_height = ic_height cfg,
               pl_speed = xSpeed, pl_horizontal = True, pl_auto = False, pl_img = ic_img cfg\<rparr>
     in engine_call (ForegroundAddLayer pl) stage)"

definition addHorizontalAutoBackgroundLayer ::
  "(ImageConfig \<Rightarrow> ImageConfig) \<Rightarrow> JetLagStage \<Rightarrow> ImageConfig \<Rightarrow> number \<Rightarrow> JetLagStage" where
  "addHorizontalAutoBackgroundLayer checkImageConfig stage cfg0 xSpeed =
    (let cfg = checkImageConfig cfg0;
         pl = \<lparr>pl_x = ic_x cfg, pl_y = ic_y cfg, pl_width = ic_width cfg, pl_height = ic_height cfg,
               pl_speed = js_div_lit xSpeed 1000, pl_horizontal = True, pl_auto = True,
               pl_img = ic_img cfg\<rparr>
     in engine_call (BackgroundAddLayer pl) stage)"

definition addVerticalAutoBackgroundLayer ::
  "(ImageConfig \<Rightarrow> ImageConfig) \<Rightarrow> JetLagStage \<Rightarrow> ImageConfig \<Rightarrow> number \<Rightarrow> JetLagStage" where
  "addVerticalAutoBackgroundLayer checkImageConfig stage cfg0 ySpeed =
    (let cfg = checkImageConfig cfg0;
         pl = \<lparr>pl_x = ic_x cfg, pl_y = ic_y cfg, pl_width = ic_width cfg, pl_height = ic_height cfg,
               pl_speed = js_div_lit ySpeed 1000, pl_horizontal = False, pl_auto = True,
               pl_img = ic_img cfg\<rparr>
     in engine_call (BackgroundAddLayer pl) stage)"

section \<open>GameConfig\<close>

text \<open>
  Modelled from the spec: the interface \<open>GameCfg\<close> (asset name lists, screen dimensions,
  builder-function references) is declared in another module; as a record type it has the
  members that the class \<open>GameConfig\<close> declares, and \<open>GameConfig implements GameCfg\<close> is
  the typing of the constant \<open>GameConfig\<close>. The five builders are functions imported
  from the level files and are held by reference, so each is the name of its function;
  \<open>ErrorVerbosity\<close> is an imported enumeration of which the class uses the member
  \<open>LOUD\<close>.
\<close>

datatype builder =
  buildLevelScreen | buildChooserScreen | buildStoreScreen | buildHelpScreen | buildSplashScreen

datatype ErrorVerbosity = LOUD

record GameCfg =
  pixelMeterRatio :: number
  defaultScreenWidth :: number
  defaultScreenHeight :: number
  adaptToScreenSize :: bool
  canVibrate :: bool
  forceAccelerometerOff :: bool
  storageKey :: string
  verbosity :: ErrorVerbosity
  hitBoxes :: bool
  resourcePrefix :: string
  musicNames :: "string list"
  soundNames :: "string list"
  imageNames :: "string list"
  levelBuilder :: builder
  chooserBuilder :: builder
  helpBuilder :: builder
  splashBuilder :: builder
  storeBuilder :: builder

definition GameConfig :: GameCfg where
  "GameConfig =
    \<lparr>pixelMeterRatio = Fin 100,
     defaultScreenWidth = Fin 1600,
     defaultScreenHeight = Fin 900,
     adaptToScreenSize = True,
     canVibrate = True,
     forceAccelerometerOff = True,
     storageKey = ''com.me.my_jetlag_game.storage'',
     verbosity = LOUD,
     hitBoxes = True,
     resourcePrefix = ''./assets/'',
     musicNames = [''tune.ogg''],
     soundNames = [''high_pitch.ogg'', ''low_pitch.ogg'', ''lose_sound.ogg'', ''win_sound.ogg'',
       ''slow_down.ogg'', ''woo_woo_woo.ogg'', ''flap_flap.ogg''],
     imageNames = [
       ''green_ball.png'', ''mustard_ball.png'', ''red_ball.png'', ''blue_ball.png'',
       ''purple_ball.png'', ''grey_ball.png'',
       ''left_arrow.png'', ''right_arrow.png'', ''back_arrow.png'', ''level_tile.png'',
       ''audio_on.png'', ''audio_off.png'',
       ''black.png'', ''red.png'',
       ''msg2.png'', ''fade.png'',
       ''splash.png'', ''chooser.png'',
       ''mid.png'', ''front.png'', ''back.png'',
       ''leg_star_1.png'', ''leg_star_2.png'', ''leg_star_3.png'', ''leg_star_4.png'',
       ''leg_star_5.png'', ''leg_star_6.png'', ''leg_star_7.png'', ''leg_star_8.png'',
       ''flip_leg_star_1.png'', ''flip_leg_star_2.png'', ''flip_leg_star_3.png'',
       ''flip_leg_star_4.png'', ''flip_leg_star_5.png'', ''flip_leg_star_6.png'',
       ''flip_leg_star_7.png'', ''flip_leg_star_8.png'',
       ''fly_star_1.png'', ''fly_star_2.png'',
       ''star_burst_1.png'', ''star_burst_2.png'', ''star_burst_3.png'', ''star_burst_4.png'',
       ''color_star_1.png'', ''color_star_2.png'', ''color_star_3.png'', ''color_star_4.png'',
       ''color_star_5.png'', ''color_star_6.png'', ''color_star_7.png'', ''color_star_8.png'',
       ''noise.png'', ''pause.png''],
     levelBuilder = buildLevelScreen,
     chooserBuilder = buildChooserScreen,
     helpBuilder = buildHelpScreen,
     splashBuilder = buildSplashScreen,
     storeBuilder = buildStoreScreen\<rparr>"

section \<open>Reading the calls of one method\<close>

text \<open>The calls a method has added to the stage: those after the ones already there.\<close>

definition new_calls :: "JetLagStage \<Rightarrow> JetLagStage \<Rightarrow> call list" where
  "new_calls before after = drop (length (calls before)) (calls after)"

text \<open>What a single call says about construction, shape, body type and the world.\<close>

datatype shape = Polygon | Box | Circle

fun constructed :: "call \<Rightarrow> (ref \<times> ActorClass) option" where
  "constructed (Construct r k w h img z) = Some (r, k)"
| "constructed c = None"

fun construct_size :: "call \<Rightarrow> (number \<times> number) option" where
  "construct_size (Construct r k w h img z) = Some (w, h)"
| "construct_size c = None"

fun circle_radius :: "call \<Rightarrow> number option" where
  "circle_radius (SetCirclePhysics r bt x y rad) = Some rad"
| "circle_radius c = None"

fun shape_of :: "call \<Rightarrow> shape option" where
  "shape_of (SetPolygonPhysics r bt x y vs) = Some Polygon"
| "shape_of (SetBoxPhysics r bt x y) = Some Box"
| "shape_of (SetCirclePhysics r bt x y rad) = Some Circle"
| "shape_of c = None"

fun body_type_of :: "call \<Rightarrow> BodyType option" where
  "body_type_of (SetPolygonPhysics r bt x y vs) = Some bt"
| "body_type_of (SetBoxPhysics r bt x y) = Some bt"
| "body_type_of (SetCirclePhysics r bt x y rad) = Some bt"
| "body_type_of c = None"

fun added :: "call \<Rightarrow> (ref \<times> number option) option" where
  "added (AddActor r z) = Some (r, z)"
| "added c = None"

fun layer_of :: "call \<Rightarrow> ParallaxLayer option" where
  "layer_of (BackgroundAddLayer pl) = Some pl"
| "layer_of (ForegroundAddLayer pl) = Some pl"
| "layer_of c = None"

section \<open>Descriptors and engine failures at run time\<close>







section \<open>Properties of the validation\<close>

lemma checkActorConfig_z:
  "ac_z (checkActorConfig c) =
    (if not_number (ac_z c) then Some (Fin 0)
     else if opt_lt (ac_z c) (Fin (- 2)) then Some (Fin (- 2))
     else if opt_gt (ac_z c) (Fin 2) then Some (Fin 2)
     else ac_z c)"
  by (simp add: checkActorConfig_def Let_def js_gt_def)


lemma checkActorConfig_box:
  "ac_box (checkActorConfig c) = (if not_boolean (ac_box c) then Some False else ac_box c)"
  by (simp add: checkActorConfig_def Let_def)

lemma checkActorConfig_verts:
  "ac_verts (checkActorConfig c) = (if not_verts (ac_verts c) then Null else ac_verts c)"
  by (simp add: checkActorConfig_def Let_def)

lemma checkActorConfig_mandatory:
  "ac_x (checkActorConfig c) = ac_x c"
  "ac_y (checkActorConfig c) = ac_y c"
  "ac_width (checkActorConfig c) = ac_width c"
  "ac_height (checkActorConfig c) = ac_height c"
  by (simp_all add: checkActorConfig_def Let_def)

lemma not_boolean_iff: "not_boolean b \<longleftrightarrow> b \<noteq> Some True"
  by (cases b) auto

lemma not_verts_iff: "not_verts v \<longleftrightarrow> v = Undefined \<or> v = Null"
  by (cases v) auto

lemmas make_defs = makeObstacle_def makeHero_def makeEnemy_def makeDestination_def makeGoodie_def
  new_actor_def engine_call_def new_calls_def Let_def

lemmas layer_defs = addHorizontalBackgroundLayer_def addVerticalBackgroundLayer_def
  addHorizontalForegroundLayer_def addHorizontalAutoBackgroundLayer_def
  addVerticalAutoBackgroundLayer_def engine_call_def new_calls_def Let_def

text \<open>Whatever the field held, the validated z-order is a finite number between -2 and 2.\<close>

lemma z_in_range:
  "\<exists>r. ac_z (checkActorConfig c) = Some (Fin r) \<and> - 2 \<le> r \<and> r \<le> 2"
proof (cases "ac_z c")
  case None
  then show ?thesis by (simp add: checkActorConfig_z)
next
  case (Some v)
  then show ?thesis
    by (cases v) (auto simp: checkActorConfig_z js_gt_def)
qed

text \<open>A number below -2 is neither 0 nor NaN, so the first clamp is reached and applies.\<close>

lemma z_low:
  assumes "opt_lt (ac_z c) (Fin (- 2))"
  shows "ac_z (checkActorConfig c) = Some (Fin (- 2))"
proof -
  from assms obtain v where v: "ac_z c = Some v" "js_lt v (Fin (- 2))"
    by (cases "ac_z c") auto
  then have "\<not> not_number (ac_z c)"
    by (cases v) auto
  with assms show ?thesis
    by (simp add: checkActorConfig_z)
qed

text \<open>A number above 2 passes the default and the first clamp, and the second applies.\<close>

lemma z_high:
  assumes "opt_gt (ac_z c) (Fin 2)"
  shows "ac_z (checkActorConfig c) = Some (Fin 2)"
proof -
  from assms obtain v where v: "ac_z c = Some v" "js_lt (Fin 2) v"
    by (cases "ac_z c") (auto simp: js_gt_def)
  then have "\<not> not_number (ac_z c)" "\<not> opt_lt (ac_z c) (Fin (- 2))"
    by (cases v; auto)+
  with assms show ?thesis
    by (simp add: checkActorConfig_z)
qed

text \<open>
  Claim C1: for every ActorConfig, after validation the z field lies in [-2, 2]; a z below
  -2 becomes -2, a z above 2 becomes 2, and a missing z defaults to 0. The actor-creation
  methods all start with this validation and read z from its result.
\<close>

theorem z_clamped:
  "(\<exists>r. ac_z (checkActorConfig c) = Some (Fin r) \<and> - 2 \<le> r \<and> r \<le> 2) \<and>
   (opt_lt (ac_z c) (Fin (- 2)) \<longrightarrow> ac_z (checkActorConfig c) = Some (Fin (- 2))) \<and>
   (opt_gt (ac_z c) (Fin 2) \<longrightarrow> ac_z (checkActorConfig c) = Some (Fin 2)) \<and>
   (ac_z c = None \<longrightarrow> ac_z (checkActorConfig c) = Some (Fin 0))"
proof (intro conjI impI)
  show "\<exists>r. ac_z (checkActorConfig c) = Some (Fin r) \<and> - 2 \<le> r \<and> r \<le> 2"
    by (rule z_in_range)
next
  assume "opt_lt (ac_z c) (Fin (- 2))"
  then show "ac_z (checkActorConfig c) = Some (Fin (- 2))"
    by (rule z_low)
next
  assume "opt_gt (ac_z c) (Fin 2)"
  then show "ac_z (checkActorConfig c) = Some (Fin 2)"
    by (rule z_high)
next
  assume "ac_z c = None"
  then show "ac_z (checkActorConfig c) = Some (Fin 0)"
    by (simp add: checkActorConfig_z)
qed

text \<open>The three cases at z = -7, z = Infinity and z absent.\<close>

theorem z_clamped_witness:
  "opt_lt (Some (Fin (- 7))) (Fin (- 2)) \<and>
   ac_z (checkActorConfig \<lparr>ac_x = Fin 0, ac_y = Fin 0, ac_width = Fin 1, ac_height = Fin 1,
      ac_img = None, ac_box = None, ac_verts = Undefined, ac_z = Some (Fin (- 7))\<rparr>) = Some (Fin (- 2)) \<and>
   opt_gt (Some PosInf) (Fin 2) \<and>
   ac_z (checkActorConfig \<lparr>ac_x = Fin 0, ac_y = Fin 0, ac_width = Fin 1, ac_height = Fin 1,
      ac_img = None, ac_box = None, ac_verts = Undefined, ac_z = Some PosInf\<rparr>) = Some (Fin 2) \<and>
   ac_z (checkActorConfig \<lparr>ac_x = Fin 0, ac_y = Fin 0, ac_width = Fin 1, ac_height = Fin 1,
      ac_img = None, ac_box = None, ac_verts = Undefined, ac_z = None\<rparr>) = Some (Fin 0)"
  using
    z_clamped [of "\<lparr>ac_x = Fin 0, ac_y = Fin 0, ac_width = Fin 1, ac_height = Fin 1,
      ac_img = None, ac_box = None, ac_verts = Undefined, ac_z = Some (Fin (- 7))\<rparr>"]
    z_clamped [of "\<lparr>ac_x = Fin 0, ac_y = Fin 0, ac_width = Fin 1, ac_height = Fin 1,
      ac_img = None, ac_box = None, ac_verts = Undefined, ac_z = Some PosInf\<rparr>"]
    z_clamped [of "\<lparr>ac_x = Fin 0, ac_y = Fin 0, ac_width = Fin 1, ac_height = Fin 1,
      ac_img = None, ac_box = None, ac_verts = Undefined, ac_z = None\<rparr>"]
  by (simp add: js_gt_def)








text \<open>
  Claim C5: validation changes only the optional fields img, box, verts and z; the
  mandatory fields x, y, width and height are the ones of the descriptor it was given.
\<close>

theorem validation_frame:
  "ac_x (checkActorConfig c) = ac_x c \<and> ac_y (checkActorConfig c) = ac_y c \<and>
   ac_width (checkActorConfig c) = ac_width c \<and> ac_height (checkActorConfig c) = ac_height c \<and>
   checkActorConfig c =
     c\<lparr>ac_img := ac_img (checkActorConfig c), ac_box := ac_box (checkActorConfig c),
       ac_verts := ac_verts (checkActorConfig c), ac_z := ac_z (checkActorConfig c)\<rparr>"
  by (simp add: checkActorConfig_def Let_def)

section \<open>Properties of the actor-creation methods\<close>

text \<open>
  Claim C2: in each of makeObstacle, makeHero, makeEnemy, makeDestination and makeGoodie
  the shape follows the precedence polygon, box, circle: with an array in verts the one
  physics call is setPolygonPhysics, also when box is true; without one and with box true
  it is setBoxPhysics; otherwise it is setCirclePhysics.
\<close>

theorem shape_precedence:
  assumes "mk \<in> {makeObstacle, makeHero, makeEnemy, makeDestination, makeGoodie}"
  shows "(ac_verts cfg = Verts vs \<longrightarrow>
            List.map_filter shape_of (new_calls stage (snd (mk stage cfg))) = [Polygon]) \<and>
         (not_verts (ac_verts cfg) \<and> ac_box cfg = Some True \<longrightarrow>
            List.map_filter shape_of (new_calls stage (snd (mk stage cfg))) = [Box]) \<and>
         (not_verts (ac_verts cfg) \<and> ac_box cfg \<noteq> Some True \<longrightarrow>
            List.map_filter shape_of (new_calls stage (snd (mk stage cfg))) = [Circle])"
  using assms
  by (auto simp: make_defs checkActorConfig_verts checkActorConfig_box not_boolean_iff not_verts_iff)

text \<open>
  A hero with a triangle in verts and box set, an obstacle with box only, and a goodie
  with neither.
\<close>

theorem shape_precedence_witness:
  "List.map_filter shape_of (new_calls \<lparr>calls = [], allocated = 0\<rparr>
     (snd (makeHero \<lparr>calls = [], allocated = 0\<rparr>
       \<lparr>ac_x = Fin 1, ac_y = Fin 2, ac_width = Fin 3, ac_height = Fin 4,
        ac_img = Some ''red_ball.png'', ac_box = Some True,
        ac_verts = Verts [Fin 0, Fin 0, Fin 1, Fin 0, Fin 0, Fin 1], ac_z = Some (Fin 1)\<rparr>))) = [Polygon] \<and>
   List.map_filter shape_of (new_calls \<lparr>calls = [], allocated = 0\<rparr>
     (snd (makeObstacle \<lparr>calls = [], allocated = 0\<rparr>
       \<lparr>ac_x = Fin 1, ac_y = Fin 2, ac_width = Fin 3, ac_height = Fin 4,
        ac_img = Some ''red_ball.png'', ac_box = Some True,
        ac_verts = Undefined, ac_z = None\<rparr>))) = [Box] \<and>
   List.map_filter shape_of (new_calls \<lparr>calls = [], allocated = 0\<rparr>
     (snd (makeGoodie \<lparr>calls = [], allocated = 0\<rparr>
       \<lparr>ac_x = Fin 1, ac_y = Fin 2, ac_width = Fin 3, ac_height = Fin 4,
        ac_img = Some ''red_ball.png'', ac_box = None,
        ac_verts = Null, ac_z = None\<rparr>))) = [Circle]"
  using
    shape_precedence [of makeHero
      "\<lparr>ac_x = Fin 1, ac_y = Fin 2, ac_width = Fin 3, ac_height = Fin 4,
        ac_img = Some ''red_ball.png'', ac_box = Some True,
        ac_verts = Verts [Fin 0, Fin 0, Fin 1, Fin 0, Fin 0, Fin 1], ac_z = Some (Fin 1)\<rparr>"
      "[Fin 0, Fin 0, Fin 1, Fin 0, Fin 0, Fin 1]" "\<lparr>calls = [], allocated = 0\<rparr>"]
    shape_precedence [of makeObstacle
      "\<lparr>ac_x = Fin 1, ac_y = Fin 2, ac_width = Fin 3, ac_height = Fin 4,
        ac_img = Some ''red_ball.png'', ac_box = Some True,
        ac_verts = Undefined, ac_z = None\<rparr>"
      "[]" "\<lparr>calls = [], allocated = 0\<rparr>"]
    shape_precedence [of makeGoodie
      "\<lparr>ac_x = Fin 1, ac_y = Fin 2, ac_width = Fin 3, ac_height = Fin 4,
        ac_img = Some ''red_ball.png'', ac_box = None,
        ac_verts = Null, ac_z = None\<rparr>"
      "[]" "\<lparr>calls = [], allocated = 0\<rparr>"]
  by simp

text \<open>
  Claim C6: each of makeHero, makeEnemy, makeObstacle, makeGoodie and makeDestination
  keeps the calls the stage already had, constructs exactly one actor, of its own class,
  adds exactly one actor to the world, and the actor constructed, the actor added and the
  handle returned are the same. No call that the engine receives takes the descriptor
  itself, only values read from it.
\<close>

theorem one_actor:
  assumes "(mk, k) \<in> {(makeObstacle, Obstacle), (makeHero, Hero), (makeEnemy, Enemy),
                      (makeDestination, Destination), (makeGoodie, Goodie)}"
  shows "calls (snd (mk stage cfg)) = calls stage @ new_calls stage (snd (mk stage cfg)) \<and>
         List.map_filter constructed (new_calls stage (snd (mk stage cfg))) =
           [(fst (mk stage cfg), k)] \<and>
         map fst (List.map_filter added (new_calls stage (snd (mk stage cfg)))) =
           [fst (mk stage cfg)]"
  using assms
  by (auto simp: make_defs split: verts_field.splits)

text \<open>An enemy made on a stage that has three objects already: its handle is 3.\<close>

theorem one_actor_witness:
  "fst (makeEnemy \<lparr>calls = [OnHeroCreated], allocated = 3\<rparr>
       \<lparr>ac_x = Fin 1, ac_y = Fin 2, ac_width = Fin 3, ac_height = Fin 4,
        ac_img = None, ac_box = Some True,
        ac_verts = Null, ac_z = Some (Fin 1)\<rparr>) = 3 \<and>
   List.map_filter constructed (new_calls \<lparr>calls = [OnHeroCreated], allocated = 3\<rparr>
     (snd (makeEnemy \<lparr>calls = [OnHeroCreated], allocated = 3\<rparr>
       \<lparr>ac_x = Fin 1, ac_y = Fin 2, ac_width = Fin 3, ac_height = Fin 4,
        ac_img = None, ac_box = Some True,
        ac_verts = Null, ac_z = Some (Fin 1)\<rparr>))) = [(3, Enemy)] \<and>
   map fst (List.map_filter added (new_calls \<lparr>calls = [OnHeroCreated], allocated = 3\<rparr>
     (snd (makeEnemy \<lparr>calls = [OnHeroCreated], allocated = 3\<rparr>
       \<lparr>ac_x = Fin 1, ac_y = Fin 2, ac_width = Fin 3, ac_height = Fin 4,
        ac_img = None, ac_box = Some True,
        ac_verts = Null, ac_z = Some (Fin 1)\<rparr>)))) = [3]"
proof -
  have handle: "fst (makeEnemy \<lparr>calls = [OnHeroCreated], allocated = 3\<rparr>
       \<lparr>ac_x = Fin 1, ac_y = Fin 2, ac_width = Fin 3, ac_height = Fin 4,
        ac_img = None, ac_box = Some True,
        ac_verts = Null, ac_z = Some (Fin 1)\<rparr>) = 3"
    by (simp add: makeEnemy_def new_actor_def engine_call_def Let_def checkActorConfig_verts
        checkActorConfig_box)
  show ?thesis
    using one_actor [of makeEnemy Enemy "\<lparr>calls = [OnHeroCreated], allocated = 3\<rparr>"
      "\<lparr>ac_x = Fin 1, ac_y = Fin 2, ac_width = Fin 3, ac_height = Fin 4,
        ac_img = None, ac_box = Some True,
        ac_verts = Null, ac_z = Some (Fin 1)\<rparr>"]
    by (simp add: handle)
qed

text \<open>
  Claim C8: in the circle branch of every actor-creation method, taken when the validated
  verts is null and the validated box is false, the actor is constructed with width and
  height both equal to the larger of cfg.width and cfg.height, and the radius of the
  physics circle is half of that: the larger dimension is the diameter.
\<close>

theorem circle_branch:
  assumes "mk \<in> {makeObstacle, makeHero, makeEnemy, makeDestination, makeGoodie}"
    and "ac_verts (checkActorConfig cfg) = Null"
    and "ac_box (checkActorConfig cfg) = Some False"
  shows "List.map_filter construct_size (new_calls stage (snd (mk stage cfg))) =
           [(js_max (ac_width cfg) (ac_height cfg), js_max (ac_width cfg) (ac_height cfg))] \<and>
         List.map_filter circle_radius (new_calls stage (snd (mk stage cfg))) =
           [js_div_lit (js_max (ac_width cfg) (ac_height cfg)) 2]"
  using assms
  by (auto simp: make_defs checkActorConfig_mandatory)

text \<open>A destination of width 3 and height 4: the actor is 4 by 4, the radius is 2.\<close>

theorem circle_branch_witness:
  "ac_verts (checkActorConfig \<lparr>ac_x = Fin 1, ac_y = Fin 2, ac_width = Fin 3, ac_height = Fin 4,
        ac_img = None, ac_box = None,
        ac_verts = Undefined, ac_z = None\<rparr>) = Null \<and>
   ac_box (checkActorConfig \<lparr>ac_x = Fin 1, ac_y = Fin 2, ac_width = Fin 3, ac_height = Fin 4,
        ac_img = None, ac_box = None,
        ac_verts = Undefined, ac_z = None\<rparr>) = Some False \<and>
   List.map_filter construct_size (new_calls \<lparr>calls = [], allocated = 0\<rparr>
     (snd (makeDestination \<lparr>calls = [], allocated = 0\<rparr>
       \<lparr>ac_x = Fin 1, ac_y = Fin 2, ac_width = Fin 3, ac_height = Fin 4,
        ac_img = None, ac_box = None,
        ac_verts = Undefined, ac_z = None\<rparr>))) = [(Fin 4, Fin 4)] \<and>
   List.map_filter circle_radius (new_calls \<lparr>calls = [], allocated = 0\<rparr>
     (snd (makeDestination \<lparr>calls = [], allocated = 0\<rparr>
       \<lparr>ac_x = Fin 1, ac_y = Fin 2, ac_width = Fin 3, ac_height = Fin 4,
        ac_img = None, ac_box = None,
        ac_verts = Undefined, ac_z = None\<rparr>))) = [Fin 2]"
proof -
  have v: "ac_verts (checkActorConfig \<lparr>ac_x = Fin 1, ac_y = Fin 2, ac_width = Fin 3, ac_height = Fin 4,
        ac_img = None, ac_box = None,
        ac_verts = Undefined, ac_z = None\<rparr>) = Null"
    by (simp add: checkActorConfig_verts)
  have b: "ac_box (checkActorConfig \<lparr>ac_x = Fin 1, ac_y = Fin 2, ac_width = Fin 3, ac_height = Fin 4,
        ac_img = None, ac_box = None,
        ac_verts = Undefined, ac_z = None\<rparr>) = Some False"
    by (simp add: checkActorConfig_box)
  have m: "makeDestination \<in> {makeObstacle, makeHero, makeEnemy, makeDestination, makeGoodie}"
    by simp
  show ?thesis
    using v b circle_branch [OF m v b, of "\<lparr>calls = [], allocated = 0\<rparr>"]
    by simp
qed

text \<open>
  Claim C9: makeObstacle passes the validated cfg.z as the z-order argument of addActor;
  makeHero, makeEnemy, makeDestination and makeGoodie pass the constant 0, whatever z the
  descriptor has.
\<close>

theorem addActor_z:
  "List.map_filter added (new_calls stage (snd (makeObstacle stage cfg))) =
     [(fst (makeObstacle stage cfg), ac_z (checkActorConfig cfg))] \<and>
   (mk \<in> {makeHero, makeEnemy, makeDestination, makeGoodie} \<longrightarrow>
      List.map_filter added (new_calls stage (snd (mk stage cfg))) =
        [(fst (mk stage cfg), Some (Fin 0))])"
  by (auto simp: make_defs split: verts_field.splits)

text \<open>A goodie whose descriptor has z = 2 is added at 0.\<close>

theorem addActor_z_witness:
  "List.map_filter added (new_calls \<lparr>calls = [], allocated = 0\<rparr>
     (snd (makeGoodie \<lparr>calls = [], allocated = 0\<rparr>
       \<lparr>ac_x = Fin 1, ac_y = Fin 2, ac_width = Fin 3, ac_height = Fin 4,
        ac_img = None, ac_box = None,
        ac_verts = Undefined, ac_z = Some (Fin 2)\<rparr>))) =
     [(fst (makeGoodie \<lparr>calls = [], allocated = 0\<rparr>
       \<lparr>ac_x = Fin 1, ac_y = Fin 2, ac_width = Fin 3, ac_height = Fin 4,
        ac_img = None, ac_box = None,
        ac_verts = Undefined, ac_z = Some (Fin 2)\<rparr>), Some (Fin 0))]"
  using addActor_z [of "\<lparr>calls = [], allocated = 0\<rparr>"
       "\<lparr>ac_x = Fin 1, ac_y = Fin 2, ac_width = Fin 3, ac_height = Fin 4,
        ac_img = None, ac_box = None,
        ac_verts = Undefined, ac_z = Some (Fin 2)\<rparr>" makeGoodie]
  by simp

text \<open>
  Claim C10: in every shape branch makeHero creates its physics body with body type
  DYNAMIC, and makeObstacle, makeEnemy, makeDestination and makeGoodie create theirs with
  body type STATIC.
\<close>

theorem body_types:
  "List.map_filter body_type_of (new_calls stage (snd (makeHero stage cfg))) = [DYNAMIC] \<and>
   (mk \<in> {makeObstacle, makeEnemy, makeDestination, makeGoodie} \<longrightarrow>
      List.map_filter body_type_of (new_calls stage (snd (mk stage cfg))) = [STATIC])"
  by (auto simp: make_defs split: verts_field.splits)

text \<open>An enemy with box set.\<close>

theorem body_types_witness:
  "List.map_filter body_type_of (new_calls \<lparr>calls = [], allocated = 0\<rparr>
     (snd (makeEnemy \<lparr>calls = [], allocated = 0\<rparr>
       \<lparr>ac_x = Fin 1, ac_y = Fin 2, ac_width = Fin 3, ac_height = Fin 4,
        ac_img = Some ''red_ball.png'', ac_box = Some True,
        ac_verts = Undefined, ac_z = None\<rparr>))) = [STATIC]"
  using body_types [of "\<lparr>calls = [], allocated = 0\<rparr>"
       "\<lparr>ac_x = Fin 1, ac_y = Fin 2, ac_width = Fin 3, ac_height = Fin 4,
        ac_img = Some ''red_ball.png'', ac_box = Some True,
        ac_verts = Undefined, ac_z = None\<rparr>" makeEnemy]
  by simp

section \<open>Properties of the parallax layers\<close>

text \<open>
  Claim C3, as stated: every parallax-layer method passes its speed argument s unchanged
  to the ParallaxLayer constructor. It fails for the auto methods: with s = 1,
  addHorizontalAutoBackgroundLayer constructs the layer with speed 1 / 1000.
\<close>

theorem auto_layer_speed_counterexample:
  "map pl_speed (List.map_filter layer_of (new_calls \<lparr>calls = [], allocated = 0\<rparr>
     (addHorizontalAutoBackgroundLayer id \<lparr>calls = [], allocated = 0\<rparr>
        \<lparr>ic_x = Fin 0, ic_y = Fin 0, ic_width = Fin 16, ic_height = Fin 9,
         ic_img = Some ''mid.png'', ic_z = Some (Fin (- 1))\<rparr> (Fin 1)))) \<noteq> [Fin 1]"
  by (simp add: layer_defs)

text \<open>
  Claim C3, amended: addHorizontalBackgroundLayer, addVerticalBackgroundLayer and
  addHorizontalForegroundLayer each construct one layer whose speed argument is s;
  addHorizontalAutoBackgroundLayer and addVerticalAutoBackgroundLayer each construct one
  layer whose speed argument is s / 1000. This holds for every validation of the image
  descriptor.
\<close>

theorem layer_speeds:
  "map pl_speed (List.map_filter layer_of
      (new_calls stage (addHorizontalBackgroundLayer chk stage cfg s))) = [s] \<and>
   map pl_speed (List.map_filter layer_of
      (new_calls stage (addVerticalBackgroundLayer chk stage cfg s))) = [s] \<and>
   map pl_speed (List.map_filter layer_of
      (new_calls stage (addHorizontalForegroundLayer chk stage cfg s))) = [s] \<and>
   map pl_speed (List.map_filter layer_of
      (new_calls stage (addHorizontalAutoBackgroundLayer chk stage cfg s))) =
        [js_div_lit s 1000] \<and>
   map pl_speed (List.map_filter layer_of
      (new_calls stage (addVerticalAutoBackgroundLayer chk stage cfg s))) =
        [js_div_lit s 1000]"
  by (simp add: layer_defs)

section \<open>Properties of GameConfig\<close>

text \<open>
  Claim C7: GameConfig, typed by the interface GameCfg, supplies the three asset name
  lists (one music file, seven sounds, fifty-three images), the screen dimensions 1600
  by 900, and the five builder functions, each field holding the builder of its name.
\<close>

theorem GameConfig_supplies:
  "musicNames GameConfig = [''tune.ogg''] \<and>
   length (soundNames GameConfig) = 7 \<and>
   length (imageNames GameConfig) = 53 \<and>
   defaultScreenWidth GameConfig = Fin 1600 \<and>
   defaultScreenHeight GameConfig = Fin 900 \<and>
   levelBuilder GameConfig = buildLevelScreen \<and>
   chooserBuilder GameConfig = buildChooserScreen \<and>
   helpBuilder GameConfig = buildHelpScreen \<and>
   splashBuilder GameConfig = buildSplashScreen \<and>
   storeBuilder GameConfig = buildStoreScreen"
  by (simp add: GameConfig_def)

end
